theory Spec2Isabelle
  imports Complex_Main "HOL-Library.Multiset"
begin

section \<open>Solana Alpha Agent: the opportunity-scoring pipeline of \<open>src/index.ts\<close>\<close>

text \<open>
  The embedding follows \<open>src/index.ts\<close>. Strings are lists of characters. The
  language primitive \<open>String.prototype.toLowerCase\<close> is a parameter of the scorer, so
  that what is proved of the scorer holds for the primitive as the language defines it
  on every string. A JavaScript number is modelled by the real it denotes; the only
  arithmetic the modelled code performs on numbers is the subtraction inside the sort
  comparator, whose sign on doubles is the sign of the real difference.
\<close>

subsection \<open>Types (lines 28--53)\<close>

record Idea =
  name :: string
  description :: string
  complexity :: string

text \<open>
  \<open>supporting_signals\<close> is read with \<open>?.\<close>, so the code provides for a narrative
  without the field: \<open>None\<close> is the absent field.
\<close>

record Narrative =
  name :: string
  confidence :: string
  direction :: string
  explanation :: string
  ideas :: "Idea list"
  supporting_signals :: "string list option"

datatype Risk = LOW | MEDIUM | HIGH

text \<open>
  What the expression \<open>NARRATIVE_TOKENS[key] || []\<close> can evaluate to: an array of
  strings, or a member that the object literal inherits from \<open>Object.prototype\<close>
  (a function or an object, never an array).
\<close>

datatype TokensValue = StringArray "string list" | InheritedMember string

record AlphaOpportunity =
  narrative :: string
  action :: string
  tokens :: TokensValue
  reasoning :: string
  confidence :: real
  risk :: Risk
  suggested_allocation :: string

subsection \<open>String primitives of the language\<close>

text \<open>
  \<open>String.prototype.toLowerCase\<close> restricted to ASCII text, where it sends A--Z to
  a--z and changes nothing else. It serves to run the scorer on the ASCII examples
  below; the scorer itself takes the primitive as an argument.
\<close>

definition toLowerCaseChar :: "char \<Rightarrow> char" where
  "toLowerCaseChar c =
     (case map_of (zip ''ABCDEFGHIJKLMNOPQRSTUVWXYZ'' ''abcdefghijklmnopqrstuvwxyz'') c of
        Some l \<Rightarrow> l
      | None \<Rightarrow> c)"

definition toLowerCase_ascii :: "string \<Rightarrow> string" where
  "toLowerCase_ascii s = map toLowerCaseChar s"

text \<open>A non-negative integer inside a template literal: its decimal digits.\<close>

definition digit :: "nat \<Rightarrow> char" where
  "digit d = ''0123456789'' ! d"

fun numberToString :: "nat \<Rightarrow> string" where
  "numberToString n =
     (if n < 10 then [digit n] else numberToString (n div 10) @ [digit (n mod 10)])"

declare numberToString.simps [simp del]

subsection \<open>Narrative-to-token mapping (lines 56--64)\<close>

definition NARRATIVE_TOKENS :: "(string \<times> string list) list" where
  "NARRATIVE_TOKENS =
    [(''defi'', [''JUPyiwrYJFskUPiHa7hkeR8VUtAeFoSYbKedZNsDvCN'',
                 ''DezXAZ8z7PnrnRJjz3wXBoRgixCa6xjnB7YaB1pPB263'']),
     (''ai agents'', [''FoqP7aTaibT5npFKYpYYADYY4Dc1GYVqJBJhV88PBvMV'']),
     (''trading'', [''JUPyiwrYJFskUPiHa7hkeR8VUtAeFoSYbKedZNsDvCN'']),
     (''infrastructure'', [''So11111111111111111111111111111111111111112'']),
     (''staking'', [''mSoLzYCxHdYgdzU16g5QSh3i5K3z3KZK7ytfqcJm7So'']),
     (''rwa'', []),
     (''memecoins'', [''DezXAZ8z7PnrnRJjz3wXBoRgixCa6xjnB7YaB1pPB263''])]"

text \<open>
  \<open>NARRATIVE_TOKENS\<close> is an object literal, so its prototype is \<open>Object.prototype\<close>
  and a bracket read that finds no own property continues there. These are the member
  names of \<open>Object.prototype\<close>; each of them holds a function or an object.
\<close>

definition ObjectPrototype_members :: "string list" where
  "ObjectPrototype_members =
    [''constructor'', ''__defineGetter__'', ''__defineSetter__'', ''hasOwnProperty'',
     ''__lookupGetter__'', ''__lookupSetter__'', ''isPrototypeOf'',
     ''propertyIsEnumerable'', ''toString'', ''valueOf'', ''__proto__'',
     ''toLocaleString'']"

text \<open>\<open>NARRATIVE_TOKENS[key]\<close>; \<open>None\<close> is \<open>undefined\<close>.\<close>

definition NARRATIVE_TOKENS_get :: "string \<Rightarrow> TokensValue option" where
  "NARRATIVE_TOKENS_get key =
     (case map_of NARRATIVE_TOKENS key of
        Some ts \<Rightarrow> Some (StringArray ts)
      | None \<Rightarrow>
          if key \<in> set ObjectPrototype_members then Some (InheritedMember key) else None)"

text \<open>
  \<open>NARRATIVE_TOKENS[key] || []\<close>: arrays (the empty one too), functions and objects
  are truthy, \<open>undefined\<close> is not.
\<close>

definition tokensFor :: "string \<Rightarrow> TokensValue" where
  "tokensFor key =
     (case NARRATIVE_TOKENS_get key of Some v \<Rightarrow> v | None \<Rightarrow> StringArray [])"

subsection \<open>\<open>Array.prototype.sort\<close> with a comparator\<close>

text \<open>
  The language fixes the result of \<open>sort\<close> for a consistent comparator: ordered by the
  comparator and stable. Insertion from the right, placing an element before the first
  one it does not compare greater than, computes that result.
\<close>

fun insertBy :: "('a \<Rightarrow> 'a \<Rightarrow> real) \<Rightarrow> 'a \<Rightarrow> 'a list \<Rightarrow> 'a list" where
  "insertBy cmp x [] = [x]"
| "insertBy cmp x (y # ys) =
     (if cmp x y \<le> 0 then x # y # ys else y # insertBy cmp x ys)"

fun sortBy :: "('a \<Rightarrow> 'a \<Rightarrow> real) \<Rightarrow> 'a list \<Rightarrow> 'a list" where
  "sortBy cmp [] = []"
| "sortBy cmp (x # xs) = insertBy cmp x (sortBy cmp xs)"

subsection \<open>\<open>findAlpha\<close> (lines 94--125)\<close>

text \<open>
  The first argument is the primitive \<open>String.prototype.toLowerCase\<close>, which the code
  applies to the name (line 98) and to the direction (line 116). The \<open>for\<close> loop
  takes the narratives still to visit and the array \<open>opportunities\<close>.
\<close>

fun findAlpha_loop ::
  "(string \<Rightarrow> string) \<Rightarrow> Narrative list \<Rightarrow> AlphaOpportunity list \<Rightarrow> AlphaOpportunity list" where
  "findAlpha_loop toLowerCase [] opportunities = opportunities"
| "findAlpha_loop toLowerCase (n # rest) opportunities =
     (let key = toLowerCase (Narrative.name n);
          tokens = tokensFor key
      in if Narrative.confidence n = ''HIGH'' \<and> direction n = ''ACCELERATING'' then
           findAlpha_loop toLowerCase rest (opportunities @
             [\<lparr>narrative = Narrative.name n,
               action = ''ACCUMULATE'',
               tokens = tokens,
               reasoning = Narrative.name n
                 @ '' is a high-confidence accelerating narrative with ''
                 @ numberToString (case supporting_signals n of None \<Rightarrow> 0 | Some ss \<Rightarrow> length ss)
                 @ '' supporting signals. '' @ explanation n,
               confidence = 0.85,
               risk = MEDIUM,
               suggested_allocation = ''5-10% of portfolio''\<rparr>])
         else if Narrative.confidence n = ''MEDIUM'' then
           findAlpha_loop toLowerCase rest (opportunities @
             [\<lparr>narrative = Narrative.name n,
               action = (if direction n = ''ACCELERATING'' then ''DCA'' else ''WATCHLIST''),
               tokens = tokens,
               reasoning = Narrative.name n @ '' showing '' @ toLowerCase (direction n)
                 @ '' trend. '' @ explanation n,
               confidence = (if direction n = ''ACCELERATING'' then 0.6 else 0.4),
               risk = LOW,
               suggested_allocation =
                 (if direction n = ''ACCELERATING'' then ''2-5% of portfolio'' else ''Watch only'')\<rparr>])
         else findAlpha_loop toLowerCase rest opportunities)"

definition findAlpha :: "(string \<Rightarrow> string) \<Rightarrow> Narrative list \<Rightarrow> AlphaOpportunity list" where
  "findAlpha toLowerCase narratives =
     sortBy (\<lambda>a b. AlphaOpportunity.confidence b - AlphaOpportunity.confidence a)
       (findAlpha_loop toLowerCase narratives [])"

subsection \<open>Values received from the network\<close>

text \<open>
  A parsed JSON value, the \<open>any\<close> that \<open>resp.json()\<close> resolves to. The members of an
  object are listed in its property order, each key once.
\<close>

datatype json =
    JNull
  | JBool bool
  | JNumber real
  | JString string
  | JArray "json list"
  | JObject "(string \<times> json) list"

datatype JsError = FetchError | SyntaxError | TypeError

text \<open>
  What one \<open>fetch\<close> followed by \<open>resp.json()\<close> can do: \<open>fetch\<close> rejects (no
  connection, aborted or timed out), or it resolves with a status and a body that
  \<open>resp.json()\<close> cannot parse, or with a status and a parsed value. The network is a
  function from the requested URL to this outcome.
\<close>

datatype Body = Unparseable | Parsed json

datatype FetchOutcome = Rejected | Response nat Body

text \<open>
  \<open>v.m\<close> for the member names the code reads (\<open>narratives\<close>, \<open>data\<close>, \<open>price\<close>):
  reading a member of \<open>null\<close> throws, an object yields its member or \<open>undefined\<close>
  (\<open>None\<close>), every other value yields \<open>undefined\<close>.
\<close>

fun getMember :: "json \<Rightarrow> string \<Rightarrow> JsError + json option" where
  "getMember JNull m = Inl TypeError"
| "getMember (JObject kvs) m = Inr (map_of kvs m)"
| "getMember v m = Inr None"

fun truthy :: "json \<Rightarrow> bool" where
  "truthy JNull = False"
| "truthy (JBool b) = b"
| "truthy (JNumber x) = (x \<noteq> 0)"
| "truthy (JString s) = (s \<noteq> [])"
| "truthy (JArray vs) = True"
| "truthy (JObject kvs) = True"

text \<open>\<open>v || d\<close>, where \<open>v\<close> may be \<open>undefined\<close>.\<close>

definition orElse :: "json option \<Rightarrow> json \<Rightarrow> json" where
  "orElse v d = (case v of Some x \<Rightarrow> if truthy x then x else d | None \<Rightarrow> d)"

subsection \<open>\<open>fetchNarratives\<close> (lines 67--77)\<close>

text \<open>The second argument is the environment variable \<open>NARRATIVE_RADAR_URL\<close>.\<close>

definition radarUrl :: "string option \<Rightarrow> string" where
  "radarUrl env =
     (case env of
        Some u \<Rightarrow> if u \<noteq> [] then u else ''https://solana-narrative-radar-8vsib.ondigitalocean.app''
      | None \<Rightarrow> ''https://solana-narrative-radar-8vsib.ondigitalocean.app'')"

text \<open>The body of the \<open>try\<close> block: \<open>Inl\<close> is a throw.\<close>

definition fetchNarratives_try :: "(string \<Rightarrow> FetchOutcome) \<Rightarrow> string option \<Rightarrow> JsError + json" where
  "fetchNarratives_try net env =
     (case net (radarUrl env @ ''/api/narratives'') of
        Rejected \<Rightarrow> Inl FetchError
      | Response status body \<Rightarrow>
          (case body of
             Unparseable \<Rightarrow> Inl SyntaxError
           | Parsed data \<Rightarrow>
               (case getMember data ''narratives'' of
                  Inl e \<Rightarrow> Inl e
                | Inr v \<Rightarrow> Inr (orElse v (JArray [])))))"

text \<open>
  The \<open>catch\<close> block logs and returns \<open>[]\<close>. The result is what the caller receives:
  \<open>Inl\<close> would be a rejection of the returned promise.
\<close>

definition fetchNarratives :: "(string \<Rightarrow> FetchOutcome) \<Rightarrow> string option \<Rightarrow> JsError + json" where
  "fetchNarratives net env =
     (case fetchNarratives_try net env of
        Inl e \<Rightarrow> Inr (JArray [])
      | Inr v \<Rightarrow> Inr v)"

subsection \<open>\<open>getTokenPrices\<close> (lines 80--91)\<close>

fun join :: "string \<Rightarrow> string list \<Rightarrow> string" where
  "join sep [] = []"
| "join sep [x] = x"
| "join sep (x # y # ys) = x @ sep @ join sep (y # ys)"

text \<open>\<open>Object.entries\<close> of a truthy value.\<close>

fun entries :: "json \<Rightarrow> (string \<times> json) list" where
  "entries (JObject kvs) = kvs"
| "entries (JArray vs) = zip (map numberToString [0..<length vs]) vs"
| "entries (JString s) = zip (map numberToString [0..<length s]) (map (\<lambda>c. JString [c]) s)"
| "entries v = []"

text \<open>
  The \<open>for\<close> loop over the entries. A throw inside it is caught by the empty \<open>catch\<close>
  and leaves the entries set so far.
\<close>

fun setPrices :: "(string \<times> json) list \<Rightarrow> (string \<rightharpoonup> json) \<Rightarrow> (string \<rightharpoonup> json)" where
  "setPrices [] prices = prices"
| "setPrices ((mint, info) # rest) prices =
     (case getMember info ''price'' of
        Inl e \<Rightarrow> prices
      | Inr v \<Rightarrow> setPrices rest (prices(mint \<mapsto> orElse v (JNumber 0))))"

text \<open>
  The result is the map \<open>prices\<close> together with the URLs requested, in order: the
  network I/O the call performed.
\<close>

definition getTokenPrices ::
  "(string \<Rightarrow> FetchOutcome) \<Rightarrow> string list \<Rightarrow> (string \<rightharpoonup> json) \<times> string list" where
  "getTokenPrices net mints =
     (if length mints = 0 then (Map.empty, [])
      else
        let url = ''https://api.jup.ag/price/v2?ids='' @ join '','' mints
        in (case net url of
              Rejected \<Rightarrow> (Map.empty, [url])
            | Response status body \<Rightarrow>
                (case body of
                   Unparseable \<Rightarrow> (Map.empty, [url])
                 | Parsed data \<Rightarrow>
                     (case getMember data ''data'' of
                        Inl e \<Rightarrow> (Map.empty, [url])
                      | Inr v \<Rightarrow> (setPrices (entries (orElse v (JObject []))) Map.empty, [url])))))"

subsection \<open>Price enrichment in \<open>GET /alpha\<close> and \<open>POST /analyze\<close> (lines 188--191, 232--235)\<close>

text \<open>The response object is the opportunity spread out, plus \<open>token_prices\<close>.\<close>

record EnrichedOpportunity = AlphaOpportunity +
  token_prices :: "string \<rightharpoonup> json"

text \<open>\<open>prices.get(t) || null\<close>\<close>

definition priceOrNull :: "(string \<rightharpoonup> json) \<Rightarrow> string \<Rightarrow> json" where
  "priceOrNull prices t = orElse (prices t) JNull"

text \<open>\<open>Object.fromEntries\<close>: the pairs are stored in order, a later one replaces an earlier.\<close>

definition fromEntries :: "(string \<times> json) list \<Rightarrow> (string \<rightharpoonup> json)" where
  "fromEntries es = foldl (\<lambda>m (k, v). m(k \<mapsto> v)) Map.empty es"

text \<open>
  The arrow function given to \<open>opportunities.map\<close>. \<open>o.tokens.map\<close> is a call of
  \<open>undefined\<close> when \<open>o.tokens\<close> is not an array, which throws.
\<close>

definition enrich :: "(string \<rightharpoonup> json) \<Rightarrow> AlphaOpportunity \<Rightarrow> JsError + EnrichedOpportunity" where
  "enrich prices opp =
     (case tokens opp of
        StringArray ts \<Rightarrow>
          Inr (AlphaOpportunity.extend opp
                 (EnrichedOpportunity.fields (fromEntries (map (\<lambda>t. (t, priceOrNull prices t)) ts))))
      | InheritedMember m \<Rightarrow> Inl TypeError)"

fun enrichOpportunities ::
  "(string \<rightharpoonup> json) \<Rightarrow> AlphaOpportunity list \<Rightarrow> JsError + EnrichedOpportunity list" where
  "enrichOpportunities prices [] = Inr []"
| "enrichOpportunities prices (opp # rest) =
     (case enrich prices opp of
        Inl e \<Rightarrow> Inl e
      | Inr r \<Rightarrow>
          (case enrichOpportunities prices rest of
             Inl e \<Rightarrow> Inl e
           | Inr rs \<Rightarrow> Inr (r # rs)))"

subsection \<open>Example inputs\<close>

definition example_defi :: Narrative where
  "example_defi =
     \<lparr>Narrative.name = ''DeFi'', confidence = ''HIGH'', direction = ''ACCELERATING'',
      explanation = ''x'', ideas = [], supporting_signals = Some [''a'', ''b'']\<rparr>"

definition example_staking :: Narrative where
  "example_staking =
     \<lparr>Narrative.name = ''Staking'', confidence = ''MEDIUM'', direction = ''ACCELERATING'',
      explanation = ''liquid staking inflows'', ideas = [], supporting_signals = Some []\<rparr>"

definition example_rwa :: Narrative where
  "example_rwa =
     \<lparr>Narrative.name = ''RWA'', confidence = ''MEDIUM'', direction = ''STABLE'',
      explanation = ''y'', ideas = [], supporting_signals = None\<rparr>"

definition example_low :: Narrative where
  "example_low =
     \<lparr>Narrative.name = ''Memecoins'', confidence = ''LOW'', direction = ''ACCELERATING'',
      explanation = ''z'', ideas = [], supporting_signals = Some [''a'']\<rparr>"

definition example_high_stable :: Narrative where
  "example_high_stable =
     \<lparr>Narrative.name = ''Trading'', confidence = ''HIGH'', direction = ''STABLE'',
      explanation = ''w'', ideas = [], supporting_signals = Some [''a'']\<rparr>"

definition example_unrecognized :: Narrative where
  "example_unrecognized =
     \<lparr>Narrative.name = ''Infrastructure'', confidence = ''VERY_HIGH'', direction = ''ACCELERATING'',
      explanation = ''v'', ideas = [], supporting_signals = None\<rparr>"

definition example_constructor :: Narrative where
  "example_constructor =
     \<lparr>Narrative.name = ''Constructor'', confidence = ''MEDIUM'', direction = ''ACCELERATING'',
      explanation = ''u'', ideas = [], supporting_signals = None\<rparr>"

text \<open>A server error whose body nevertheless carries narratives.\<close>

definition example_net_500 :: "string \<Rightarrow> FetchOutcome" where
  "example_net_500 url =
     Response 500 (Parsed (JObject [(''narratives'',
       JArray [JObject [(''name'', JString ''DeFi''), (''confidence'', JString ''HIGH'')]])]))"

text \<open>A successful response whose \<open>narratives\<close> member is not an array.\<close>

definition example_net_wrong_shape :: "string \<Rightarrow> FetchOutcome" where
  "example_net_wrong_shape url =
     Response 200 (Parsed (JObject [(''narratives'', JString ''maintenance'')]))"

text \<open>A price map with a price for the first DeFi mint and the price 0 for the second.\<close>

definition example_prices :: "string \<rightharpoonup> json" where
  "example_prices =
     [''JUPyiwrYJFskUPiHa7hkeR8VUtAeFoSYbKedZNsDvCN'' \<mapsto> JNumber 1.5,
      ''DezXAZ8z7PnrnRJjz3wXBoRgixCa6xjnB7YaB1pPB263'' \<mapsto> JNumber 0]"

section \<open>Properties of the scorer\<close>

subsection \<open>The loop appends, one narrative at a time\<close>

lemma findAlpha_loop_step:
  "findAlpha_loop lower (n # ns) acc = findAlpha_loop lower ns (acc @ findAlpha_loop lower [n] [])"
  by (auto simp: Let_def)

lemma findAlpha_loop_acc:
  "findAlpha_loop lower ns acc = acc @ findAlpha_loop lower ns []"
proof (induction ns arbitrary: acc)
  case Nil
  show ?case by simp
next
  case (Cons n ns)
  let ?e = "findAlpha_loop lower [n] []"
  have "findAlpha_loop lower (n # ns) acc = (acc @ ?e) @ findAlpha_loop lower ns []"
    using findAlpha_loop_step [of lower n ns acc] Cons.IH [of "acc @ ?e"] by simp
  moreover have "findAlpha_loop lower (n # ns) [] = ?e @ findAlpha_loop lower ns []"
    using findAlpha_loop_step [of lower n ns "[]"] Cons.IH [of ?e] by simp
  ultimately show ?case by simp
qed

lemma findAlpha_loop_Cons:
  "findAlpha_loop lower (n # ns) [] = findAlpha_loop lower [n] [] @ findAlpha_loop lower ns []"
  using findAlpha_loop_step [of lower n ns "[]"] findAlpha_loop_acc [of lower ns "findAlpha_loop lower [n] []"]
  by simp

lemma findAlpha_loop_append:
  "findAlpha_loop lower (xs @ ys) [] = findAlpha_loop lower xs [] @ findAlpha_loop lower ys []"
proof (induction xs)
  case Nil
  show ?case by simp
next
  case (Cons x xs)
  have "findAlpha_loop lower ((x # xs) @ ys) [] = findAlpha_loop lower [x] [] @ findAlpha_loop lower (xs @ ys) []"
    using findAlpha_loop_Cons [of lower x "xs @ ys"] by simp
  also have "\<dots> = findAlpha_loop lower [x] [] @ findAlpha_loop lower xs [] @ findAlpha_loop lower ys []"
    by (simp add: Cons.IH)
  also have "\<dots> = findAlpha_loop lower (x # xs) [] @ findAlpha_loop lower ys []"
    using findAlpha_loop_Cons [of lower x xs] by simp
  finally show ?case .
qed

lemma findAlpha_loop_insert:
  "findAlpha_loop lower (xs @ n # ys) [] =
     findAlpha_loop lower xs [] @ findAlpha_loop lower [n] [] @ findAlpha_loop lower ys []"
  using findAlpha_loop_append [of lower xs "n # ys"] findAlpha_loop_Cons [of lower n ys] by simp

lemma findAlpha_loop_concat:
  "findAlpha_loop lower ns [] = concat (map (\<lambda>n. findAlpha_loop lower [n] []) ns)"
proof (induction ns)
  case Nil
  show ?case by simp
next
  case (Cons n ns)
  then show ?case
    using findAlpha_loop_Cons [of lower n ns] by simp
qed

text \<open>What one narrative contributes, by the branch taken.\<close>

lemma findAlpha_loop_high:
  assumes "Narrative.confidence n = ''HIGH''" and "direction n = ''ACCELERATING''"
  shows "findAlpha_loop lower [n] [] =
     [\<lparr>narrative = Narrative.name n, action = ''ACCUMULATE'',
       tokens = tokensFor (lower (Narrative.name n)),
       reasoning = Narrative.name n @ '' is a high-confidence accelerating narrative with ''
         @ numberToString (case supporting_signals n of None \<Rightarrow> 0 | Some ss \<Rightarrow> length ss)
         @ '' supporting signals. '' @ explanation n,
       confidence = 0.85, risk = MEDIUM,
       suggested_allocation = ''5-10% of portfolio''\<rparr>]"
  using assms by (simp add: Let_def)

lemma findAlpha_loop_medium:
  assumes "Narrative.confidence n = ''MEDIUM''"
  shows "findAlpha_loop lower [n] [] =
     [\<lparr>narrative = Narrative.name n,
       action = (if direction n = ''ACCELERATING'' then ''DCA'' else ''WATCHLIST''),
       tokens = tokensFor (lower (Narrative.name n)),
       reasoning = Narrative.name n @ '' showing '' @ lower (direction n)
         @ '' trend. '' @ explanation n,
       confidence = (if direction n = ''ACCELERATING'' then 0.6 else 0.4), risk = LOW,
       suggested_allocation =
         (if direction n = ''ACCELERATING'' then ''2-5% of portfolio'' else ''Watch only'')\<rparr>]"
  using assms by (simp add: Let_def)

lemma findAlpha_loop_skip:
  assumes "\<not> (Narrative.confidence n = ''HIGH'' \<and> direction n = ''ACCELERATING'')"
    and "Narrative.confidence n \<noteq> ''MEDIUM''"
  shows "findAlpha_loop lower [n] [] = []"
  using assms by (auto simp: Let_def)

subsection \<open>The sort\<close>

lemma insertBy_insort_key:
  "insertBy (\<lambda>a b. f b - f a) x ys = insort_key (\<lambda>a. - f a) x ys"
  by (induction ys) auto

lemma sortBy_sort_key:
  "sortBy (\<lambda>a b. f b - f a) xs = sort_key (\<lambda>a. - f a) xs"
  by (induction xs) (auto simp: insertBy_insort_key)

lemma findAlpha_sort_key:
  "findAlpha lower ns = sort_key (\<lambda>a. - AlphaOpportunity.confidence a) (findAlpha_loop lower ns [])"
  by (simp add: findAlpha_def sortBy_sort_key)

lemma mset_findAlpha: "mset (findAlpha lower ns) = mset (findAlpha_loop lower ns [])"
  by (simp add: findAlpha_sort_key)

lemma set_findAlpha: "set (findAlpha lower ns) = set (findAlpha_loop lower ns [])"
  by (simp add: findAlpha_sort_key)

lemma findAlpha_single: "findAlpha lower [n] = findAlpha_loop lower [n] []"
  by (auto simp: findAlpha_def Let_def)

declare findAlpha_loop.simps(2) [simp del]

lemma mset_findAlpha_insert:
  "mset (findAlpha lower (xs @ n # ys)) = mset (findAlpha lower [n]) + mset (findAlpha lower (xs @ ys))"
proof -
  have "findAlpha_loop lower (xs @ n # ys) [] =
      findAlpha_loop lower xs [] @ findAlpha_loop lower [n] [] @ findAlpha_loop lower ys []"
    by (rule findAlpha_loop_insert)
  moreover have "findAlpha_loop lower (xs @ ys) [] = findAlpha_loop lower xs [] @ findAlpha_loop lower ys []"
    by (rule findAlpha_loop_append)
  ultimately show ?thesis
    by (simp add: mset_findAlpha findAlpha_single)
qed

lemmas example_defs = example_defi_def example_staking_def example_rwa_def example_low_def
  example_high_stable_def example_unrecognized_def example_constructor_def

lemmas eval_defs = toLowerCase_ascii_def toLowerCaseChar_def tokensFor_def NARRATIVE_TOKENS_get_def
  NARRATIVE_TOKENS_def ObjectPrototype_members_def numberToString.simps digit_def
  findAlpha_def findAlpha_loop.simps(2) Let_def

subsection \<open>The rule table\<close>

text \<open>
  C1. A narrative with confidence HIGH and direction ACCELERATING yields exactly one
  opportunity: alone it yields the one-element list, and inside any input list it adds
  exactly that one opportunity to the output. The opportunity has action ACCUMULATE,
  confidence 0.85, risk MEDIUM and allocation "5-10% of portfolio".
\<close>

theorem findAlpha_high_accelerating:
  assumes "Narrative.confidence n = ''HIGH''" and "direction n = ''ACCELERATING''"
  shows "\<exists>opp. findAlpha lower [n] = [opp]
           \<and> mset (findAlpha lower (xs @ n # ys)) = add_mset opp (mset (findAlpha lower (xs @ ys)))
           \<and> narrative opp = Narrative.name n
           \<and> action opp = ''ACCUMULATE''
           \<and> AlphaOpportunity.confidence opp = 0.85
           \<and> risk opp = MEDIUM
           \<and> suggested_allocation opp = ''5-10% of portfolio''"
proof -
  from findAlpha_loop_high [OF assms] obtain opp where single: "findAlpha lower [n] = [opp]"
    and fields: "narrative opp = Narrative.name n" "action opp = ''ACCUMULATE''"
      "AlphaOpportunity.confidence opp = 0.85" "risk opp = MEDIUM"
      "suggested_allocation opp = ''5-10% of portfolio''"
    by (simp add: findAlpha_single)
  from single have "mset (findAlpha lower (xs @ n # ys)) = add_mset opp (mset (findAlpha lower (xs @ ys)))"
    by (simp add: mset_findAlpha_insert)
  with single fields show ?thesis by blast
qed

theorem findAlpha_high_accelerating_witness:
  "Narrative.confidence example_defi = ''HIGH'' \<and> direction example_defi = ''ACCELERATING''
   \<and> (\<exists>opp. findAlpha toLowerCase_ascii [example_defi] = [opp]
         \<and> mset (findAlpha toLowerCase_ascii ([example_rwa] @ example_defi # [example_low]))
             = add_mset opp (mset (findAlpha toLowerCase_ascii ([example_rwa] @ [example_low])))
         \<and> narrative opp = Narrative.name example_defi
         \<and> action opp = ''ACCUMULATE''
         \<and> AlphaOpportunity.confidence opp = 0.85
         \<and> risk opp = MEDIUM
         \<and> suggested_allocation opp = ''5-10% of portfolio'')"
proof -
  have c: "Narrative.confidence example_defi = ''HIGH''"
    and d: "direction example_defi = ''ACCELERATING''"
    by (simp_all add: example_defi_def)
  from findAlpha_high_accelerating [OF c d, of toLowerCase_ascii "[example_rwa]" "[example_low]"] c d
  show ?thesis by blast
qed

text \<open>
  C2. A narrative with confidence MEDIUM yields exactly one opportunity, of risk LOW:
  DCA, 0.60 and "2-5% of portfolio" when its direction is ACCELERATING; WATCHLIST, 0.40
  and "Watch only" for any other direction.
\<close>

theorem findAlpha_medium:
  assumes "Narrative.confidence n = ''MEDIUM''"
  shows "\<exists>opp. findAlpha lower [n] = [opp]
           \<and> mset (findAlpha lower (xs @ n # ys)) = add_mset opp (mset (findAlpha lower (xs @ ys)))
           \<and> narrative opp = Narrative.name n
           \<and> risk opp = LOW
           \<and> (if direction n = ''ACCELERATING''
              then action opp = ''DCA'' \<and> AlphaOpportunity.confidence opp = 0.6
                 \<and> suggested_allocation opp = ''2-5% of portfolio''
              else action opp = ''WATCHLIST'' \<and> AlphaOpportunity.confidence opp = 0.4
                 \<and> suggested_allocation opp = ''Watch only'')"
proof -
  from findAlpha_loop_medium [OF assms] obtain opp where single: "findAlpha lower [n] = [opp]"
    and fields: "narrative opp = Narrative.name n" "risk opp = LOW"
      "action opp = (if direction n = ''ACCELERATING'' then ''DCA'' else ''WATCHLIST'')"
      "AlphaOpportunity.confidence opp = (if direction n = ''ACCELERATING'' then 0.6 else 0.4)"
      "suggested_allocation opp =
         (if direction n = ''ACCELERATING'' then ''2-5% of portfolio'' else ''Watch only'')"
    by (simp add: findAlpha_single)
  from single have "mset (findAlpha lower (xs @ n # ys)) = add_mset opp (mset (findAlpha lower (xs @ ys)))"
    by (simp add: mset_findAlpha_insert)
  moreover from fields have "if direction n = ''ACCELERATING''
              then action opp = ''DCA'' \<and> AlphaOpportunity.confidence opp = 0.6
                 \<and> suggested_allocation opp = ''2-5% of portfolio''
              else action opp = ''WATCHLIST'' \<and> AlphaOpportunity.confidence opp = 0.4
                 \<and> suggested_allocation opp = ''Watch only''"
    by simp
  ultimately show ?thesis using single fields(1,2) by blast
qed

theorem findAlpha_medium_witness:
  "Narrative.confidence example_staking = ''MEDIUM'' \<and> direction example_staking = ''ACCELERATING''
   \<and> Narrative.confidence example_rwa = ''MEDIUM'' \<and> direction example_rwa \<noteq> ''ACCELERATING''
   \<and> (\<exists>opp. findAlpha toLowerCase_ascii [example_staking] = [opp]
         \<and> mset (findAlpha toLowerCase_ascii ([example_defi] @ example_staking # []))
             = add_mset opp (mset (findAlpha toLowerCase_ascii ([example_defi] @ [])))
         \<and> risk opp = LOW \<and> action opp = ''DCA'' \<and> AlphaOpportunity.confidence opp = 0.6
         \<and> suggested_allocation opp = ''2-5% of portfolio'')
   \<and> (\<exists>opp. findAlpha toLowerCase_ascii [example_rwa] = [opp]
         \<and> mset (findAlpha toLowerCase_ascii ([] @ example_rwa # [example_defi]))
             = add_mset opp (mset (findAlpha toLowerCase_ascii ([] @ [example_defi])))
         \<and> risk opp = LOW \<and> action opp = ''WATCHLIST'' \<and> AlphaOpportunity.confidence opp = 0.4
         \<and> suggested_allocation opp = ''Watch only'')"
proof -
  have s: "Narrative.confidence example_staking = ''MEDIUM''"
    and sd: "direction example_staking = ''ACCELERATING''"
    by (simp_all add: example_staking_def)
  have r: "Narrative.confidence example_rwa = ''MEDIUM''"
    and rd: "direction example_rwa \<noteq> ''ACCELERATING''"
    by (simp_all add: example_rwa_def)
  from findAlpha_medium [OF s, of toLowerCase_ascii "[example_defi]" "[]"] sd
  have "\<exists>opp. findAlpha toLowerCase_ascii [example_staking] = [opp]
         \<and> mset (findAlpha toLowerCase_ascii ([example_defi] @ example_staking # []))
             = add_mset opp (mset (findAlpha toLowerCase_ascii ([example_defi] @ [])))
         \<and> risk opp = LOW \<and> action opp = ''DCA'' \<and> AlphaOpportunity.confidence opp = 0.6
         \<and> suggested_allocation opp = ''2-5% of portfolio''"
    by auto
  moreover from findAlpha_medium [OF r, of toLowerCase_ascii "[]" "[example_defi]"] rd
  have "\<exists>opp. findAlpha toLowerCase_ascii [example_rwa] = [opp]
         \<and> mset (findAlpha toLowerCase_ascii ([] @ example_rwa # [example_defi]))
             = add_mset opp (mset (findAlpha toLowerCase_ascii ([] @ [example_defi])))
         \<and> risk opp = LOW \<and> action opp = ''WATCHLIST'' \<and> AlphaOpportunity.confidence opp = 0.4
         \<and> suggested_allocation opp = ''Watch only''"
    by auto
  ultimately show ?thesis using s sd r rd by blast
qed

text \<open>
  C3. A narrative that matches neither (HIGH, ACCELERATING) nor (MEDIUM, any) yields no
  opportunity: alone it yields the empty list, and removing it from any input list
  leaves the output unchanged.
\<close>

theorem findAlpha_no_match:
  assumes "\<not> (Narrative.confidence n = ''HIGH'' \<and> direction n = ''ACCELERATING'')"
    and "Narrative.confidence n \<noteq> ''MEDIUM''"
  shows "findAlpha lower [n] = [] \<and> findAlpha lower (xs @ n # ys) = findAlpha lower (xs @ ys)"
proof -
  have skip: "findAlpha_loop lower [n] [] = []"
    by (rule findAlpha_loop_skip [OF assms])
  have "findAlpha_loop lower (xs @ n # ys) [] =
      findAlpha_loop lower xs [] @ findAlpha_loop lower [n] [] @ findAlpha_loop lower ys []"
    by (rule findAlpha_loop_insert)
  moreover have "findAlpha_loop lower (xs @ ys) [] = findAlpha_loop lower xs [] @ findAlpha_loop lower ys []"
    by (rule findAlpha_loop_append)
  ultimately have "findAlpha_loop lower (xs @ n # ys) [] = findAlpha_loop lower (xs @ ys) []"
    using skip by simp
  with skip show ?thesis
    by (simp only: findAlpha_def sortBy.simps)
qed

theorem findAlpha_no_match_witness:
  "\<not> (Narrative.confidence example_low = ''HIGH'' \<and> direction example_low = ''ACCELERATING'')
   \<and> Narrative.confidence example_low \<noteq> ''MEDIUM''
   \<and> \<not> (Narrative.confidence example_unrecognized = ''HIGH''
         \<and> direction example_unrecognized = ''ACCELERATING'')
   \<and> Narrative.confidence example_unrecognized \<noteq> ''MEDIUM''
   \<and> \<not> (Narrative.confidence example_high_stable = ''HIGH''
         \<and> direction example_high_stable = ''ACCELERATING'')
   \<and> Narrative.confidence example_high_stable \<noteq> ''MEDIUM''
   \<and> findAlpha toLowerCase_ascii [example_low] = []
   \<and> findAlpha toLowerCase_ascii ([example_defi] @ example_low # [example_rwa]) = findAlpha toLowerCase_ascii ([example_defi] @ [example_rwa])
   \<and> findAlpha toLowerCase_ascii [example_unrecognized] = []
   \<and> findAlpha toLowerCase_ascii ([example_defi] @ example_unrecognized # []) = findAlpha toLowerCase_ascii ([example_defi] @ [])
   \<and> findAlpha toLowerCase_ascii [example_high_stable] = []
   \<and> findAlpha toLowerCase_ascii ([] @ example_high_stable # [example_rwa]) = findAlpha toLowerCase_ascii ([] @ [example_rwa])"
proof -
  have l: "\<not> (Narrative.confidence example_low = ''HIGH'' \<and> direction example_low = ''ACCELERATING'')"
    "Narrative.confidence example_low \<noteq> ''MEDIUM''"
    by (simp_all add: example_low_def)
  have u: "\<not> (Narrative.confidence example_unrecognized = ''HIGH''
         \<and> direction example_unrecognized = ''ACCELERATING'')"
    "Narrative.confidence example_unrecognized \<noteq> ''MEDIUM''"
    by (simp_all add: example_unrecognized_def)
  have h: "\<not> (Narrative.confidence example_high_stable = ''HIGH''
         \<and> direction example_high_stable = ''ACCELERATING'')"
    "Narrative.confidence example_high_stable \<noteq> ''MEDIUM''"
    by (simp_all add: example_high_stable_def)
  from findAlpha_no_match [OF l, of toLowerCase_ascii "[example_defi]" "[example_rwa]"]
    findAlpha_no_match [OF u, of toLowerCase_ascii "[example_defi]" "[]"]
    findAlpha_no_match [OF h, of toLowerCase_ascii "[]" "[example_rwa]"] l u h
  show ?thesis by blast
qed

subsection \<open>Ordering of the result\<close>

lemma sorted_wrt_descending:
  "sorted (map (\<lambda>a. - f a) xs) = sorted_wrt (\<lambda>a b. (f b :: real) \<le> f a) xs"
  by (induction xs) auto

lemma filter_concat_map:
  "filter P (concat (map g xs)) = concat (map (\<lambda>x. filter P (g x)) xs)"
  by (induction xs) auto

text \<open>
  C4. The list returned by the scorer is in descending order of confidence, and the
  opportunities of any one confidence value appear in the order of the narratives that
  produced them.
\<close>

theorem findAlpha_sorted_stable:
  "sorted_wrt (\<lambda>a b. AlphaOpportunity.confidence b \<le> AlphaOpportunity.confidence a) (findAlpha lower ns)
   \<and> filter (\<lambda>opp. AlphaOpportunity.confidence opp = c) (findAlpha lower ns)
       = concat (map (\<lambda>n. filter (\<lambda>opp. AlphaOpportunity.confidence opp = c) (findAlpha lower [n])) ns)"
proof
  have "sorted (map (\<lambda>a. - AlphaOpportunity.confidence a) (findAlpha lower ns))"
    unfolding findAlpha_sort_key by (rule sorted_sort_key)
  then show "sorted_wrt (\<lambda>a b. AlphaOpportunity.confidence b \<le> AlphaOpportunity.confidence a)
      (findAlpha lower ns)"
    by (simp only: sorted_wrt_descending)
next
  let ?P = "\<lambda>opp. AlphaOpportunity.confidence opp = c"
  have "filter ?P (findAlpha lower ns)
      = filter (\<lambda>opp. - AlphaOpportunity.confidence opp = - c) (findAlpha lower ns)"
    by simp
  also have "\<dots> = filter (\<lambda>opp. - AlphaOpportunity.confidence opp = - c) (findAlpha_loop lower ns [])"
    unfolding findAlpha_sort_key by (rule sort_key_stable)
  also have "\<dots> = filter ?P (findAlpha_loop lower ns [])"
    by simp
  also have "\<dots> = filter ?P (concat (map (\<lambda>n. findAlpha_loop lower [n] []) ns))"
    using findAlpha_loop_concat [of lower ns] by simp
  also have "\<dots> = concat (map (\<lambda>n. filter ?P (findAlpha lower [n])) ns)"
    by (simp only: filter_concat_map findAlpha_single)
  finally show "filter ?P (findAlpha lower ns) = concat (map (\<lambda>n. filter ?P (findAlpha lower [n])) ns)" .
qed

subsection \<open>Reasoning text\<close>

lemma in_findAlpha_loop_single:
  assumes "opp \<in> set (findAlpha_loop lower ns [])"
  shows "\<exists>n \<in> set ns. opp \<in> set (findAlpha_loop lower [n] [])"
  using assms by (subst (asm) findAlpha_loop_concat) auto

text \<open>
  C6. Every emitted opportunity comes from an input narrative and carries the reasoning
  text of that narrative's template: for a HIGH and ACCELERATING narrative the name,
  " is a high-confidence accelerating narrative with ", the number of supporting signals
  (0 when the field is absent), " supporting signals. " and the explanation; for a MEDIUM
  narrative the name, " showing ", the direction as the primitive \<open>toLowerCase\<close>
  returns it, " trend. " and the explanation. This holds for every direction string,
  the primitive being an argument of the scorer.
\<close>

theorem findAlpha_reasoning:
  assumes "opp \<in> set (findAlpha lower ns)"
  shows "\<exists>n \<in> set ns. findAlpha lower [n] = [opp]
     \<and> (Narrative.confidence n = ''HIGH'' \<and> direction n = ''ACCELERATING''
          \<and> action opp = ''ACCUMULATE''
          \<and> reasoning opp = Narrative.name n
               @ '' is a high-confidence accelerating narrative with ''
               @ numberToString (case supporting_signals n of None \<Rightarrow> 0 | Some ss \<Rightarrow> length ss)
               @ '' supporting signals. '' @ explanation n
        \<or> Narrative.confidence n = ''MEDIUM''
          \<and> (action opp = ''DCA'' \<or> action opp = ''WATCHLIST'')
          \<and> reasoning opp = Narrative.name n @ '' showing '' @ lower (direction n)
               @ '' trend. '' @ explanation n)"
proof -
  from assms have "opp \<in> set (findAlpha_loop lower ns [])"
    by (simp add: set_findAlpha)
  then obtain n where n: "n \<in> set ns" and opp: "opp \<in> set (findAlpha_loop lower [n] [])"
    using in_findAlpha_loop_single by blast
  consider (high) "Narrative.confidence n = ''HIGH''" "direction n = ''ACCELERATING''"
    | (medium) "Narrative.confidence n = ''MEDIUM''"
    | (none) "\<not> (Narrative.confidence n = ''HIGH'' \<and> direction n = ''ACCELERATING'')"
        "Narrative.confidence n \<noteq> ''MEDIUM''"
    by blast
  then show ?thesis
  proof cases
    case high
    with opp findAlpha_loop_high [OF high] have "findAlpha lower [n] = [opp]"
      "action opp = ''ACCUMULATE''"
      "reasoning opp = Narrative.name n
               @ '' is a high-confidence accelerating narrative with ''
               @ numberToString (case supporting_signals n of None \<Rightarrow> 0 | Some ss \<Rightarrow> length ss)
               @ '' supporting signals. '' @ explanation n"
      by (simp_all add: findAlpha_single)
    with n high show ?thesis by blast
  next
    case medium
    with opp findAlpha_loop_medium [OF medium] have "findAlpha lower [n] = [opp]"
      "action opp = ''DCA'' \<or> action opp = ''WATCHLIST''"
      "reasoning opp = Narrative.name n @ '' showing '' @ lower (direction n)
               @ '' trend. '' @ explanation n"
      by (simp_all add: findAlpha_single)
    with n medium show ?thesis by blast
  next
    case none
    with opp findAlpha_loop_skip [OF none] show ?thesis by simp
  qed
qed

theorem findAlpha_reasoning_witness:
  "\<lparr>narrative = ''DeFi'', action = ''ACCUMULATE'',
     tokens = StringArray [''JUPyiwrYJFskUPiHa7hkeR8VUtAeFoSYbKedZNsDvCN'',
                           ''DezXAZ8z7PnrnRJjz3wXBoRgixCa6xjnB7YaB1pPB263''],
     reasoning = ''DeFi is a high-confidence accelerating narrative with 2 supporting signals. x'',
     confidence = 0.85, risk = MEDIUM, suggested_allocation = ''5-10% of portfolio''\<rparr>
     \<in> set (findAlpha toLowerCase_ascii [example_rwa, example_defi])
   \<and> \<lparr>narrative = ''RWA'', action = ''WATCHLIST'', tokens = StringArray [],
       reasoning = ''RWA showing stable trend. y'',
       confidence = 0.4, risk = LOW, suggested_allocation = ''Watch only''\<rparr>
     \<in> set (findAlpha toLowerCase_ascii [example_rwa, example_defi])
   \<and> (\<exists>n \<in> set [example_rwa, example_defi].
        findAlpha toLowerCase_ascii [n] =
          [\<lparr>narrative = ''DeFi'', action = ''ACCUMULATE'',
            tokens = StringArray [''JUPyiwrYJFskUPiHa7hkeR8VUtAeFoSYbKedZNsDvCN'',
                                  ''DezXAZ8z7PnrnRJjz3wXBoRgixCa6xjnB7YaB1pPB263''],
            reasoning = ''DeFi is a high-confidence accelerating narrative with 2 supporting signals. x'',
            confidence = 0.85, risk = MEDIUM, suggested_allocation = ''5-10% of portfolio''\<rparr>]
        \<and> Narrative.confidence n = ''HIGH'' \<and> direction n = ''ACCELERATING'')
   \<and> (\<exists>n \<in> set [example_rwa, example_defi].
        findAlpha toLowerCase_ascii [n] =
          [\<lparr>narrative = ''RWA'', action = ''WATCHLIST'', tokens = StringArray [],
            reasoning = ''RWA showing stable trend. y'',
            confidence = 0.4, risk = LOW, suggested_allocation = ''Watch only''\<rparr>]
        \<and> Narrative.confidence n = ''MEDIUM'')"
proof -
  let ?d = "\<lparr>narrative = ''DeFi'', action = ''ACCUMULATE'',
     tokens = StringArray [''JUPyiwrYJFskUPiHa7hkeR8VUtAeFoSYbKedZNsDvCN'',
                           ''DezXAZ8z7PnrnRJjz3wXBoRgixCa6xjnB7YaB1pPB263''],
     reasoning = ''DeFi is a high-confidence accelerating narrative with 2 supporting signals. x'',
     confidence = 0.85, risk = MEDIUM, suggested_allocation = ''5-10% of portfolio''\<rparr>"
  let ?r = "\<lparr>narrative = ''RWA'', action = ''WATCHLIST'', tokens = StringArray [],
       reasoning = ''RWA showing stable trend. y'',
       confidence = 0.4, risk = LOW, suggested_allocation = ''Watch only''\<rparr>"
  have out: "findAlpha toLowerCase_ascii [example_rwa, example_defi] = [?d, ?r]"
    by (simp add: example_defs eval_defs)
  have d: "?d \<in> set (findAlpha toLowerCase_ascii [example_rwa, example_defi])"
    and r: "?r \<in> set (findAlpha toLowerCase_ascii [example_rwa, example_defi])"
    by (simp_all only: out list.set insert_iff simp_thms)
  from findAlpha_reasoning [OF d]
  have "\<exists>n \<in> set [example_rwa, example_defi]. findAlpha toLowerCase_ascii [n] = [?d]
      \<and> Narrative.confidence n = ''HIGH'' \<and> direction n = ''ACCELERATING''"
    by (auto simp: example_defs)
  moreover from findAlpha_reasoning [OF r]
  have "\<exists>n \<in> set [example_rwa, example_defi]. findAlpha toLowerCase_ascii [n] = [?r]
      \<and> Narrative.confidence n = ''MEDIUM''"
    by (auto simp: example_defs)
  ultimately show ?thesis using d r by blast
qed

subsection \<open>One opportunity per narrative at most\<close>

lemma length_findAlpha_loop_single: "length (findAlpha_loop lower [n] []) \<le> 1"
  by (auto simp: findAlpha_loop.simps Let_def)

lemma narrative_findAlpha_loop_single:
  "mset (map narrative (findAlpha_loop lower [n] [])) \<subseteq># {#Narrative.name n#}"
  by (auto simp: findAlpha_loop.simps Let_def)

lemma findAlpha_origin:
  assumes "opp \<in> set (findAlpha lower ns)"
  shows "\<exists>n \<in> set ns. findAlpha lower [n] = [opp] \<and> narrative opp = Narrative.name n"
proof -
  from assms have "opp \<in> set (findAlpha_loop lower ns [])"
    by (simp add: set_findAlpha)
  then obtain n where n: "n \<in> set ns" and opp: "opp \<in> set (findAlpha_loop lower [n] [])"
    using in_findAlpha_loop_single by blast
  from opp have "findAlpha_loop lower [n] [] = [opp] \<and> narrative opp = Narrative.name n"
    by (auto simp: findAlpha_loop.simps Let_def split: if_splits)
  with n show ?thesis
    by (auto simp: findAlpha_single)
qed

text \<open>
  C10. The scorer emits at most one opportunity for a narrative, its output is never
  longer than its input, the narrative fields of the output are names of input
  narratives, each input narrative accounting for at most one of them, and every
  opportunity of the output is the one opportunity of an input narrative whose name,
  unchanged, is the opportunity's narrative field.
\<close>

theorem findAlpha_at_most_one:
  "length (findAlpha lower [n]) \<le> 1
   \<and> length (findAlpha lower ns) \<le> length ns
   \<and> mset (map narrative (findAlpha lower ns)) \<subseteq># mset (map Narrative.name ns)
   \<and> (\<forall>opp \<in> set (findAlpha lower ns).
         \<exists>m \<in> set ns. findAlpha lower [m] = [opp] \<and> narrative opp = Narrative.name m)"
proof (intro conjI)
  show "length (findAlpha lower [n]) \<le> 1"
    by (simp only: findAlpha_single length_findAlpha_loop_single)
next
  have names: "mset (map narrative (findAlpha_loop lower ns [])) \<subseteq># mset (map Narrative.name ns)"
  proof (induction ns)
    case Nil
    show ?case by simp
  next
    case (Cons m ms)
    have "mset (map narrative (findAlpha_loop lower (m # ms) []))
        = mset (map narrative (findAlpha_loop lower [m] []))
          + mset (map narrative (findAlpha_loop lower ms []))"
      by (subst findAlpha_loop_Cons) simp
    also have "\<dots> \<subseteq># {#Narrative.name m#} + mset (map Narrative.name ms)"
      by (rule subset_mset.add_mono [OF narrative_findAlpha_loop_single Cons.IH])
    finally show ?case by simp
  qed
  have "mset (map narrative (findAlpha lower ns)) = mset (map narrative (findAlpha_loop lower ns []))"
    using mset_findAlpha [of lower ns] by (metis mset_map)
  with names show sub: "mset (map narrative (findAlpha lower ns)) \<subseteq># mset (map Narrative.name ns)"
    by simp
  from size_mset_mono [OF sub] show "length (findAlpha lower ns) \<le> length ns"
    by simp
next
  show "\<forall>opp \<in> set (findAlpha lower ns).
      \<exists>m \<in> set ns. findAlpha lower [m] = [opp] \<and> narrative opp = Narrative.name m"
    using findAlpha_origin by blast
qed

theorem findAlpha_at_most_one_witness:
  "length (findAlpha toLowerCase_ascii [example_defi]) \<le> 1
   \<and> length (findAlpha toLowerCase_ascii [example_low, example_rwa, example_defi])
       \<le> length [example_low, example_rwa, example_defi]
   \<and> mset (map narrative (findAlpha toLowerCase_ascii [example_low, example_rwa, example_defi]))
       \<subseteq># mset (map Narrative.name [example_low, example_rwa, example_defi])
   \<and> \<lparr>narrative = ''RWA'', action = ''WATCHLIST'', tokens = StringArray [],
       reasoning = ''RWA showing stable trend. y'',
       confidence = 0.4, risk = LOW, suggested_allocation = ''Watch only''\<rparr>
     \<in> set (findAlpha toLowerCase_ascii [example_low, example_rwa, example_defi])
   \<and> (\<exists>m \<in> set [example_low, example_rwa, example_defi].
        findAlpha toLowerCase_ascii [m] =
          [\<lparr>narrative = ''RWA'', action = ''WATCHLIST'', tokens = StringArray [],
            reasoning = ''RWA showing stable trend. y'',
            confidence = 0.4, risk = LOW, suggested_allocation = ''Watch only''\<rparr>]
        \<and> ''RWA'' = Narrative.name m)"
proof -
  let ?ns = "[example_low, example_rwa, example_defi]"
  let ?r = "\<lparr>narrative = ''RWA'', action = ''WATCHLIST'', tokens = StringArray [],
       reasoning = ''RWA showing stable trend. y'',
       confidence = 0.4, risk = LOW, suggested_allocation = ''Watch only''\<rparr>"
  have r: "?r \<in> set (findAlpha toLowerCase_ascii ?ns)"
    by (simp add: example_defs eval_defs)
  note all = findAlpha_at_most_one [of toLowerCase_ascii example_defi ?ns]
  from all have "\<forall>opp \<in> set (findAlpha toLowerCase_ascii ?ns).
      \<exists>m \<in> set ?ns. findAlpha toLowerCase_ascii [m] = [opp] \<and> narrative opp = Narrative.name m"
    by blast
  from this r
  have "\<exists>m \<in> set ?ns. findAlpha toLowerCase_ascii [m] = [?r] \<and> narrative ?r = Narrative.name m"
    by (rule bspec)
  then have "\<exists>m \<in> set ?ns. findAlpha toLowerCase_ascii [m] = [?r] \<and> ''RWA'' = Narrative.name m"
    by simp
  with all r show ?thesis by blast
qed

subsection \<open>Token lookup\<close>

lemma tokensFor_own_key:
  assumes "key \<notin> set ObjectPrototype_members"
  shows "tokensFor key =
     StringArray (case map_of NARRATIVE_TOKENS key of Some ts \<Rightarrow> ts | None \<Rightarrow> [])"
  using assms by (simp add: tokensFor_def NARRATIVE_TOKENS_get_def split: option.splits)

lemma tokens_findAlpha:
  assumes "opp \<in> set (findAlpha lower ns)"
  shows "\<exists>n \<in> set ns. tokens opp = tokensFor (lower (Narrative.name n))"
proof -
  from assms have "opp \<in> set (findAlpha_loop lower ns [])"
    by (simp add: set_findAlpha)
  then obtain n where n: "n \<in> set ns" and opp: "opp \<in> set (findAlpha_loop lower [n] [])"
    using in_findAlpha_loop_single by blast
  from opp have "tokens opp = tokensFor (lower (Narrative.name n))"
    by (auto simp: findAlpha_loop.simps Let_def split: if_splits)
  with n show ?thesis by blast
qed

lemma toLowerCase_ascii_DeFi: "toLowerCase_ascii ''DeFi'' = toLowerCase_ascii ''defi''"
  by (simp add: toLowerCase_ascii_def toLowerCaseChar_def)

text \<open>
  C5. The claim fails for a narrative named "Constructor", which the primitive
  lower-cases to "constructor": that name is not a key of the table, yet the
  opportunity's tokens are not the empty array but the member \<open>constructor\<close> that the
  table object inherits, and enriching that opportunity throws.
\<close>

theorem findAlpha_constructor_tokens:
  assumes "lower ''Constructor'' = ''constructor''"
  shows "map_of NARRATIVE_TOKENS (lower (Narrative.name example_constructor)) = None
   \<and> map tokens (findAlpha lower [example_constructor]) = [InheritedMember ''constructor'']
   \<and> enrichOpportunities prices (findAlpha lower [example_constructor]) = Inl TypeError"
  using assms
  by (simp add: example_constructor_def tokensFor_def NARRATIVE_TOKENS_get_def
      NARRATIVE_TOKENS_def ObjectPrototype_members_def findAlpha_def findAlpha_loop.simps(2)
      Let_def enrich_def)

theorem findAlpha_constructor_tokens_witness:
  "toLowerCase_ascii ''Constructor'' = ''constructor''
   \<and> map_of NARRATIVE_TOKENS (toLowerCase_ascii (Narrative.name example_constructor)) = None
   \<and> map tokens (findAlpha toLowerCase_ascii [example_constructor])
       = [InheritedMember ''constructor'']
   \<and> enrichOpportunities example_prices (findAlpha toLowerCase_ascii [example_constructor])
       = Inl TypeError"
proof -
  have l: "toLowerCase_ascii ''Constructor'' = ''constructor''"
    by (simp add: toLowerCase_ascii_def toLowerCaseChar_def)
  from findAlpha_constructor_tokens [of toLowerCase_ascii example_prices, OF l] l
  show ?thesis by blast
qed

subsection \<open>The narrative fetch\<close>

text \<open>
  C7, as amended. \<open>fetchNarratives\<close> never raises. It returns the empty array when
  \<open>fetch\<close> rejects, when the body cannot be parsed, when the parsed body is not an
  object, and when the object has no \<open>narratives\<close> member or a falsy one. Otherwise it
  returns the \<open>narratives\<close> member as it is, whatever the status of the response and
  whatever the shape of the member.
\<close>

theorem fetchNarratives_result:
  "fetchNarratives net env =
     Inr (case net (radarUrl env @ ''/api/narratives'') of
            Rejected \<Rightarrow> JArray []
          | Response status body \<Rightarrow>
              (case body of
                 Unparseable \<Rightarrow> JArray []
               | Parsed data \<Rightarrow>
                   (case data of
                      JObject kvs \<Rightarrow>
                        (case map_of kvs ''narratives'' of
                           None \<Rightarrow> JArray []
                         | Some v \<Rightarrow> if truthy v then v else JArray [])
                    | _ \<Rightarrow> JArray [])))"
  by (simp add: fetchNarratives_def fetchNarratives_try_def orElse_def
      split: FetchOutcome.splits Body.splits json.splits option.splits)

text \<open>
  C7 as stated fails: a response with status 500 whose body carries narratives is
  returned to the caller, and so is a \<open>narratives\<close> member that is a string.
\<close>

theorem fetchNarratives_counterexample:
  "fetchNarratives example_net_500 None =
     Inr (JArray [JObject [(''name'', JString ''DeFi''), (''confidence'', JString ''HIGH'')]])
   \<and> fetchNarratives example_net_500 None \<noteq> Inr (JArray [])
   \<and> fetchNarratives example_net_wrong_shape None = Inr (JString ''maintenance'')
   \<and> fetchNarratives example_net_wrong_shape None \<noteq> Inr (JArray [])"
  by (simp add: fetchNarratives_def fetchNarratives_try_def orElse_def
      example_net_500_def example_net_wrong_shape_def)

subsection \<open>Prices\<close>

text \<open>
  C9. Called with no token identifiers, \<open>getTokenPrices\<close> returns the empty map and
  requests no URL, whatever the network would answer.
\<close>

theorem getTokenPrices_empty:
  "getTokenPrices net [] = (Map.empty, [])"
  by (simp add: getTokenPrices_def)

lemma foldl_upd_map:
  "foldl (\<lambda>m (k, v). m(k \<mapsto> v)) m0 (map (\<lambda>t. (t, f t)) ts)
     = (\<lambda>t. if t \<in> set ts then Some (f t) else m0 t)"
proof (induction ts arbitrary: m0)
  case Nil
  show ?case by simp
next
  case (Cons a ts)
  have "foldl (\<lambda>m (k, v). m(k \<mapsto> v)) m0 (map (\<lambda>t. (t, f t)) (a # ts))
      = foldl (\<lambda>m (k, v). m(k \<mapsto> v)) (m0(a \<mapsto> f a)) (map (\<lambda>t. (t, f t)) ts)"
    by simp
  also have "\<dots> = (\<lambda>t. if t \<in> set ts then Some (f t) else (m0(a \<mapsto> f a)) t)"
    by (rule Cons.IH)
  also have "\<dots> = (\<lambda>t. if t \<in> set (a # ts) then Some (f t) else m0 t)"
    by (rule ext) simp
  finally show ?case .
qed

lemma fromEntries_map:
  "fromEntries (map (\<lambda>t. (t, f t)) ts) = (\<lambda>t. if t \<in> set ts then Some (f t) else None)"
  by (simp add: fromEntries_def foldl_upd_map)

lemma enrich_array:
  assumes "tokens opp = StringArray ts"
  shows "\<exists>r. enrich prices opp = Inr r
     \<and> AlphaOpportunity.truncate r = opp
     \<and> token_prices r = (\<lambda>t. if t \<in> set ts then Some (priceOrNull prices t) else None)"
  using assms
  by (simp add: enrich_def fromEntries_map AlphaOpportunity.truncate_def
      AlphaOpportunity.extend_def EnrichedOpportunity.fields_def)

text \<open>
  C8, as amended. For opportunities whose tokens are arrays and any price map, the
  enrichment does not throw; each response object is its opportunity plus
  \<open>token_prices\<close>, whose keys are exactly the opportunity's token identifiers; the value
  for a token is its price in the map when that price is truthy, and \<open>null\<close> when the
  map has no price for the token or a falsy one such as 0.
\<close>

theorem enrichOpportunities_token_prices:
  assumes "list_all (\<lambda>opp. \<exists>ts. tokens opp = StringArray ts) opps"
  shows "\<exists>rs. enrichOpportunities prices opps = Inr rs
     \<and> list_all2 (\<lambda>opp r. AlphaOpportunity.truncate r = opp
          \<and> (\<exists>ts. tokens opp = StringArray ts
               \<and> dom (token_prices r) = set ts
               \<and> (\<forall>t \<in> set ts. token_prices r t =
                    Some (case prices t of
                            None \<Rightarrow> JNull
                          | Some p \<Rightarrow> if truthy p then p else JNull)))) opps rs"
  using assms
proof (induction opps)
  case Nil
  show ?case by simp
next
  case (Cons opp opps)
  from Cons.prems obtain ts where ts: "tokens opp = StringArray ts"
    by auto
  from enrich_array [OF ts, of prices] obtain r where r: "enrich prices opp = Inr r"
    "AlphaOpportunity.truncate r = opp"
    "token_prices r = (\<lambda>t. if t \<in> set ts then Some (priceOrNull prices t) else None)"
    by blast
  from r(3) have dom: "dom (token_prices r) = set ts"
    by (auto simp: dom_def)
  from r(3) have val: "\<forall>t \<in> set ts. token_prices r t =
      Some (case prices t of None \<Rightarrow> JNull | Some p \<Rightarrow> if truthy p then p else JNull)"
    by (simp add: priceOrNull_def orElse_def)
  from Cons obtain rs where rs: "enrichOpportunities prices opps = Inr rs"
    "list_all2 (\<lambda>opp r. AlphaOpportunity.truncate r = opp
          \<and> (\<exists>ts. tokens opp = StringArray ts
               \<and> dom (token_prices r) = set ts
               \<and> (\<forall>t \<in> set ts. token_prices r t =
                    Some (case prices t of
                            None \<Rightarrow> JNull
                          | Some p \<Rightarrow> if truthy p then p else JNull)))) opps rs"
    by auto
  have "enrichOpportunities prices (opp # opps) = Inr (r # rs)"
    by (simp add: r(1) rs(1))
  with r(2) ts dom val rs(2) show ?case
    by auto
qed

theorem enrichOpportunities_token_prices_witness:
  "list_all (\<lambda>opp. \<exists>ts. tokens opp = StringArray ts) (findAlpha toLowerCase_ascii [example_defi, example_rwa])
   \<and> (\<exists>rs. enrichOpportunities example_prices (findAlpha toLowerCase_ascii [example_defi, example_rwa]) = Inr rs
     \<and> list_all2 (\<lambda>opp r. AlphaOpportunity.truncate r = opp
          \<and> (\<exists>ts. tokens opp = StringArray ts
               \<and> dom (token_prices r) = set ts
               \<and> (\<forall>t \<in> set ts. token_prices r t =
                    Some (case example_prices t of
                            None \<Rightarrow> JNull
                          | Some p \<Rightarrow> if truthy p then p else JNull))))
          (findAlpha toLowerCase_ascii [example_defi, example_rwa]) rs)"
proof -
  have h: "list_all (\<lambda>opp. \<exists>ts. tokens opp = StringArray ts) (findAlpha toLowerCase_ascii [example_defi, example_rwa])"
    by (simp add: example_defs eval_defs)
  from enrichOpportunities_token_prices [OF h, of example_prices] h
  show ?thesis by blast
qed

text \<open>
  C8 as stated fails: the price map holds the price 0 for the second DeFi mint, and the
  response gives \<open>null\<close> for it, not the price.
\<close>

theorem enrichOpportunities_zero_price_counterexample:
  "example_prices ''DezXAZ8z7PnrnRJjz3wXBoRgixCa6xjnB7YaB1pPB263'' = Some (JNumber 0)
   \<and> map tokens (findAlpha toLowerCase_ascii [example_defi]) =
       [StringArray [''JUPyiwrYJFskUPiHa7hkeR8VUtAeFoSYbKedZNsDvCN'',
                     ''DezXAZ8z7PnrnRJjz3wXBoRgixCa6xjnB7YaB1pPB263'']]
   \<and> \<not> isl (enrichOpportunities example_prices (findAlpha toLowerCase_ascii [example_defi]))
   \<and> token_prices (hd (projr (enrichOpportunities example_prices (findAlpha toLowerCase_ascii [example_defi]))))
       ''DezXAZ8z7PnrnRJjz3wXBoRgixCa6xjnB7YaB1pPB263'' = Some JNull
   \<and> token_prices (hd (projr (enrichOpportunities example_prices (findAlpha toLowerCase_ascii [example_defi]))))
       ''JUPyiwrYJFskUPiHa7hkeR8VUtAeFoSYbKedZNsDvCN'' = Some (JNumber 1.5)"
  by (simp add: example_defs eval_defs enrich_def fromEntries_def priceOrNull_def orElse_def
      AlphaOpportunity.extend_def EnrichedOpportunity.fields_def example_prices_def)

end
